theory Spec2Isabelle
  imports Complex_Main "HOL-Library.AList"
begin

section \<open>Surreal Phoenicians: prices, pricing, negotiation, supply refresh\<close>

text \<open>
  A shallow embedding of \<^verbatim>\<open>surreal_phoenicians.py\<close>. Python's \<^verbatim>\<open>float\<close> is
  modelled by \<^typ>\<open>real\<close> (exact arithmetic, no rounding), Python's \<^verbatim>\<open>int\<close> by
  \<^typ>\<open>int\<close>, a \<^verbatim>\<open>dict\<close> by an association list in insertion order
  (\<^const>\<open>map_of\<close> reads it, \<^const>\<open>AList.update\<close> stores into it, \<^const>\<open>AList.delete\<close>
  removes a key), and an exception by the left summand of a sum type.
\<close>

datatype error = KeyError | ZeroDivisionError | ValueError

subsection \<open>SurrealNumber\<close>

record SurrealNumber =
  sn_a :: real
  sn_b :: real
  sn_c :: real

definition SN :: "real \<Rightarrow> real \<Rightarrow> real \<Rightarrow> SurrealNumber" where
  "SN x y z = \<lparr>sn_a = x, sn_b = y, sn_c = z\<rparr>"

text \<open>\<^verbatim>\<open>__add__\<close> and \<^verbatim>\<open>__sub__\<close> with a SurrealNumber operand.\<close>

definition sn_add :: "SurrealNumber \<Rightarrow> SurrealNumber \<Rightarrow> SurrealNumber" where
  "sn_add x y = SN (sn_a x + sn_a y) (sn_b x + sn_b y) (sn_c x + sn_c y)"

definition sn_sub :: "SurrealNumber \<Rightarrow> SurrealNumber \<Rightarrow> SurrealNumber" where
  "sn_sub x y = SN (sn_a x - sn_a y) (sn_b x - sn_b y) (sn_c x - sn_c y)"

text \<open>\<^verbatim>\<open>__mul__\<close> with a scalar (an int or a float).\<close>

definition sn_mul :: "SurrealNumber \<Rightarrow> real \<Rightarrow> SurrealNumber" where
  "sn_mul x k = SN (sn_a x * k) (sn_b x * k) (sn_c x * k)"

text \<open>\<^verbatim>\<open>__lt__\<close>: omega first, then the real part, then epsilon.\<close>

definition sn_lt :: "SurrealNumber \<Rightarrow> SurrealNumber \<Rightarrow> bool" where
  "sn_lt x y =
     (if sn_c x \<noteq> sn_c y then sn_c x < sn_c y
      else if sn_a x \<noteq> sn_a y then sn_a x < sn_a y
      else sn_b x < sn_b y)"

text \<open>\<^verbatim>\<open>__eq__\<close>: every component within \<open>1e-10\<close>.\<close>

definition sn_eq :: "SurrealNumber \<Rightarrow> SurrealNumber \<Rightarrow> bool" where
  "sn_eq x y =
     (\<bar>sn_a x - sn_a y\<bar> < 1 / 10 ^ 10 \<and> \<bar>sn_b x - sn_b y\<bar> < 1 / 10 ^ 10
      \<and> \<bar>sn_c x - sn_c y\<bar> < 1 / 10 ^ 10)"

text \<open>\<^verbatim>\<open>__le__\<close>, \<^verbatim>\<open>__gt__\<close> and \<^verbatim>\<open>__ge__\<close>, each written as the source derives it.\<close>

definition sn_le :: "SurrealNumber \<Rightarrow> SurrealNumber \<Rightarrow> bool" where
  "sn_le x y = (sn_lt x y \<or> sn_eq x y)"

definition sn_gt :: "SurrealNumber \<Rightarrow> SurrealNumber \<Rightarrow> bool" where
  "sn_gt x y = (\<not> sn_le x y)"

definition sn_ge :: "SurrealNumber \<Rightarrow> SurrealNumber \<Rightarrow> bool" where
  "sn_ge x y = (\<not> sn_lt x y)"

definition is_legal :: "SurrealNumber \<Rightarrow> bool" where
  "is_legal x = (sn_c x \<le> 0)"

definition clear_omega :: "SurrealNumber \<Rightarrow> SurrealNumber" where
  "clear_omega x = SN (sn_a x) (sn_b x) 0"

subsection \<open>NegotiationCut\<close>

record NegotiationCut =
  cut_L :: "SurrealNumber list"
  cut_R :: "SurrealNumber list"

definition empty_cut :: NegotiationCut where
  "empty_cut = \<lparr>cut_L = [], cut_R = []\<rparr>"

definition add_offer :: "NegotiationCut \<Rightarrow> SurrealNumber \<Rightarrow> bool \<Rightarrow> NegotiationCut" where
  "add_offer nc price is_seller =
     (if is_seller then nc\<lparr>cut_L := cut_L nc @ [price]\<rparr>
      else nc\<lparr>cut_R := cut_R nc @ [price]\<rparr>)"

text \<open>
  Python's \<^verbatim>\<open>max\<close> and \<^verbatim>\<open>min\<close> on a non-empty list: the first element is the
  candidate, and a later element replaces it when it compares \<^verbatim>\<open>>\<close> (for max) or
  \<^verbatim>\<open><\<close> (for min) against the candidate.
\<close>

definition py_max :: "SurrealNumber \<Rightarrow> SurrealNumber list \<Rightarrow> SurrealNumber" where
  "py_max x xs = foldl (\<lambda>m y. if sn_gt y m then y else m) x xs"

definition py_min :: "SurrealNumber \<Rightarrow> SurrealNumber list \<Rightarrow> SurrealNumber" where
  "py_min x xs = foldl (\<lambda>m y. if sn_lt y m then y else m) x xs"

definition find_simplest_in_gap :: "NegotiationCut \<Rightarrow> SurrealNumber option" where
  "find_simplest_in_gap nc =
     (case cut_L nc of [] \<Rightarrow> None
      | l # ls \<Rightarrow>
        (case cut_R nc of [] \<Rightarrow> None
         | r # rs \<Rightarrow>
           (let max_L = py_max l ls; min_R = py_min r rs
            in if sn_ge max_L min_R then None
               else Some (SN ((sn_a max_L + sn_a min_R) / 2) 0
                             (max (sn_c max_L) (sn_c min_R))))))"

text \<open>
  The part of \<^verbatim>\<open>negotiate_price\<close> that follows the legality check: the two opening
  offers, filed into a fresh cut in the order of the source.
\<close>

definition opening_cut :: "SurrealNumber \<Rightarrow> bool \<Rightarrow> NegotiationCut" where
  "opening_cut base_price is_buying =
     (if is_buying
      then add_offer (add_offer empty_cut (sn_mul base_price (85 / 100)) False)
             (sn_mul base_price (105 / 100)) True
      else add_offer (add_offer empty_cut (sn_mul base_price (115 / 100)) True)
             (sn_mul base_price (95 / 100)) False)"

text \<open>
  \<^verbatim>\<open>negotiate_price\<close> from the point where \<^verbatim>\<open>base_price\<close> is known: \<open>None\<close> is
  the source's \<^verbatim>\<open>return None\<close> for a price that needs a permit.
\<close>

definition resolve_price :: "SurrealNumber \<Rightarrow> int \<Rightarrow> bool \<Rightarrow> SurrealNumber option" where
  "resolve_price base_price quantity is_buying =
     (if \<not> is_legal base_price then None
      else let final_price =
                 (case find_simplest_in_gap (opening_cut base_price is_buying) of
                    None \<Rightarrow> base_price
                  | Some p \<Rightarrow> p)
           in Some (sn_mul final_price (of_int quantity)))"

subsection \<open>Market model\<close>

record Good =
  good_id :: string
  good_name :: string
  base_a :: real
  base_b :: real
  monopoly :: bool
  fragile :: bool
  perishable :: bool

record CityModifier =
  a_mod :: real
  b_mod :: real
  c_mod :: real

record City =
  city_id :: string
  city_name :: string
  region :: string
  modifiers :: "(string \<times> CityModifier) list"
  stock :: "(string \<times> int) list"
  demand_factors :: "(string \<times> real) list"

record Charter =
  charter_cities :: "string list"
  charter_goods :: "string list"

definition applies_to :: "Charter \<Rightarrow> string \<Rightarrow> string \<Rightarrow> bool" where
  "applies_to ch city good = (city \<in> set (charter_cities ch) \<and> good \<in> set (charter_goods ch))"

text \<open>\<^verbatim>\<open>d.get(k, default)\<close> on a dict.\<close>

definition dict_get :: "('k \<times> 'v) list \<Rightarrow> 'k \<Rightarrow> 'v \<Rightarrow> 'v" where
  "dict_get d k dflt = (case map_of d k of None \<Rightarrow> dflt | Some v \<Rightarrow> v)"

record Stats =
  total_trades :: int
  goods_bought :: "(string \<times> int) list"
  goods_sold :: "(string \<times> int) list"
  total_spent :: SurrealNumber
  total_earned :: SurrealNumber
  cities_visited :: "string list"
  routes_traveled :: int
  events_encountered :: int
  supply_refreshes :: int

text \<open>
  The fields of \<^verbatim>\<open>GameState\<close> that pricing, trading and the supply refresh read or
  write. The ship, the routes and the house flags are touched by none of them.
\<close>

record GameState =
  current_city :: string
  day :: int
  money :: SurrealNumber
  cargo :: "(string \<times> int) list"
  charters :: "Charter list"
  reputation :: "(string \<times> int) list"
  last_supply_refresh_day :: int
  stats :: Stats
  goods :: "(string \<times> Good) list"
  cities :: "(string \<times> City) list"
  base_stock_levels :: "(string \<times> (string \<times> int) list) list"

subsection \<open>The world at the start of a game\<close>

definition mk_good :: "string \<Rightarrow> string \<Rightarrow> real \<Rightarrow> real \<Rightarrow> bool \<Rightarrow> bool \<Rightarrow> bool \<Rightarrow> Good" where
  "mk_good i n a b m f p =
     \<lparr>good_id = i, good_name = n, base_a = a, base_b = b, monopoly = m, fragile = f,
      perishable = p\<rparr>"

definition mk_mod :: "real \<Rightarrow> real \<Rightarrow> real \<Rightarrow> CityModifier" where
  "mk_mod a b c = \<lparr>a_mod = a, b_mod = b, c_mod = c\<rparr>"

definition create_goods :: "(string \<times> Good) list" where
  "create_goods =
     [(''purple_dye'', mk_good ''purple_dye'' ''Purple Dye'' 220 (-3) True False False),
      (''glass'', mk_good ''glass'' ''Glass'' 120 0 False False False),
      (''olive_oil'', mk_good ''olive_oil'' ''Olive Oil'' 40 (-1) False False True),
      (''cedar'', mk_good ''cedar'' ''Cedar Timber'' 90 (-1) False False False),
      (''wine'', mk_good ''wine'' ''Wine'' 36 0 False True True),
      (''salt'', mk_good ''salt'' ''Salt'' 18 1 False False False),
      (''tin'', mk_good ''tin'' ''Tin'' 130 1 False False False),
      (''silver'', mk_good ''silver'' ''Silver'' 240 2 False False False)]"

definition carthage :: City where
  "carthage =
     \<lparr>city_id = ''carthage'', city_name = ''Carthage'', region = ''N. Africa'',
      modifiers = [(''glass'', mk_mod (-8) (-1) 0), (''olive_oil'', mk_mod 4 0 0),
                   (''wine'', mk_mod 2 0 0)],
      stock = [(''glass'', 18), (''olive_oil'', 25), (''wine'', 12), (''salt'', 30)],
      demand_factors = []\<rparr>"

definition tyre :: City where
  "tyre =
     \<lparr>city_id = ''tyre'', city_name = ''Tyre'', region = ''Levant'',
      modifiers = [(''purple_dye'', mk_mod (-40) (-2) 0), (''glass'', mk_mod (-20) (-1) 0),
                   (''cedar'', mk_mod (-30) (-1) 0)],
      stock = [(''purple_dye'', 5), (''glass'', 15), (''cedar'', 8)],
      demand_factors = []\<rparr>"

definition gadir :: City where
  "gadir =
     \<lparr>city_id = ''gadir'', city_name = ''Gadir'', region = ''Iberia'',
      modifiers = [(''purple_dye'', mk_mod 0 0 1), (''silver'', mk_mod (-30) 1 0),
                   (''tin'', mk_mod (-20) 0 0)],
      stock = [(''silver'', 6), (''tin'', 12), (''salt'', 20)],
      demand_factors = []\<rparr>"

definition create_cities :: "(string \<times> City) list" where
  "create_cities = [(''carthage'', carthage), (''tyre'', tyre), (''gadir'', gadir)]"

definition create_base_stock_levels :: "(string \<times> (string \<times> int) list) list" where
  "create_base_stock_levels =
     [(''carthage'', [(''glass'', 18), (''olive_oil'', 25), (''wine'', 12), (''salt'', 30)]),
      (''tyre'', [(''purple_dye'', 5), (''glass'', 15), (''cedar'', 8)]),
      (''gadir'', [(''silver'', 6), (''tin'', 12), (''salt'', 20)])]"

definition init_stats :: Stats where
  "init_stats =
     \<lparr>total_trades = 0, goods_bought = [], goods_sold = [], total_spent = SN 0 0 0,
      total_earned = SN 0 0 0, cities_visited = [''carthage''], routes_traveled = 0,
      events_encountered = 0, supply_refreshes = 0\<rparr>"

definition init_state :: GameState where
  "init_state =
     \<lparr>current_city = ''carthage'', day = 1, money = SN 1240 (-1) 0, cargo = [],
      charters = [], reputation = [(''merchant_guild'', 5)], last_supply_refresh_day = 1,
      stats = init_stats, goods = create_goods, cities = create_cities,
      base_stock_levels = create_base_stock_levels\<rparr>"

text \<open>A charter for purple dye in Gadir.\<close>

definition gadir_charter :: Charter where
  "gadir_charter = \<lparr>charter_cities = [''gadir''], charter_goods = [''purple_dye'']\<rparr>"

subsection \<open>Pricing\<close>

text \<open>The charter loop of \<^verbatim>\<open>get_price\<close>: every applicable charter sets omega to 0.\<close>

definition apply_charters :: "Charter list \<Rightarrow> string \<Rightarrow> string \<Rightarrow> SurrealNumber \<Rightarrow> SurrealNumber" where
  "apply_charters chs cid gid price =
     foldl (\<lambda>p ch. if applies_to ch cid gid then p\<lparr>sn_c := 0\<rparr> else p) price chs"

definition is_specialty :: "City \<Rightarrow> string \<Rightarrow> bool" where
  "is_specialty city gid =
     (case map_of (modifiers city) gid of None \<Rightarrow> False | Some m \<Rightarrow> a_mod m < 0)"

definition get_price :: "GameState \<Rightarrow> string \<Rightarrow> string \<Rightarrow> bool \<Rightarrow> error + SurrealNumber" where
  "get_price st gid cid is_buying =
     (case map_of (goods st) gid of None \<Rightarrow> Inl KeyError
      | Some good \<Rightarrow>
     (case map_of (cities st) cid of None \<Rightarrow> Inl KeyError
      | Some city \<Rightarrow>
       (let price0 = SN (base_a good) (base_b good) (if monopoly good then 1 else 0);
            price1 = (case map_of (modifiers city) gid of None \<Rightarrow> price0
                      | Some m \<Rightarrow>
                          SN (sn_a price0 + a_mod m) (sn_b price0 + b_mod m)
                             (if monopoly good then c_mod m else 0));
            price2 = apply_charters (charters st) cid gid price1;
            stock_now = dict_get (stock city) gid 0;
            player_cargo = dict_get (cargo st) gid 0;
            base_spread = 15 / 100;
            stock_factor = max (5 / 10) (min 2 (real_of_int stock_now / 10));
            inventory_pressure = 1 + real_of_int player_cargo * (2 / 100);
            specialty = is_specialty city gid;
            specialty_bonus = (if specialty then 5 / 100 else 0);
            rep_bonus = real_of_int (dict_get (reputation st) ''merchant_guild'' 0) * (- (15 / 100))
        in if is_buying then
             (let spread_multiplier = 1 + base_spread + (1 / stock_factor - 1) * (1 / 10);
                  a1 = sn_a price2 * spread_multiplier;
                  a2 = (if specialty then a1 * (102 / 100) else a1);
                  b2 = (if specialty then sn_b price2 + 5 / 10 else sn_b price2)
              in Inr (SN a2 (b2 + rep_bonus) (sn_c price2)))
           else
             (let sm1 = 1 - base_spread - specialty_bonus;
                  sm2 = sm1 - (stock_factor - 1) * (5 / 100)
              in if inventory_pressure = 0 then Inl ZeroDivisionError
                 else
                   (let sm3 = sm2 / inventory_pressure;
                        a1 = sn_a price2 * max (7 / 10) sm3;
                        b2 = (if specialty then sn_b price2 - 3 / 10 else sn_b price2)
                    in Inr (SN a1 (b2 + rep_bonus) (sn_c price2)))))))"

definition can_afford :: "GameState \<Rightarrow> SurrealNumber \<Rightarrow> bool" where
  "can_afford st price = (if \<not> is_legal price then False else sn_ge (money st) price)"

definition negotiate_price ::
  "GameState \<Rightarrow> string \<Rightarrow> string \<Rightarrow> int \<Rightarrow> bool \<Rightarrow> error + SurrealNumber option" where
  "negotiate_price st gid cid quantity is_buying =
     (case get_price st gid cid is_buying of Inl e \<Rightarrow> Inl e
      | Inr base_price \<Rightarrow> Inr (resolve_price base_price quantity is_buying))"

subsection \<open>Trading\<close>

text \<open>
  \<^verbatim>\<open>buy_goods\<close> and \<^verbatim>\<open>sell_goods\<close> read two numbers from the player. The model
  takes them as arguments, already through \<^verbatim>\<open>int(input(...))\<close>: \<open>None\<close> is a text
  that \<^verbatim>\<open>int\<close> rejects with the \<^verbatim>\<open>ValueError\<close> that the function catches. The result
  is the state afterwards and which message was printed; an exception that the function
  does not catch is the left summand.
\<close>

datatype outcome =
  NoGoods | Purchased | CannotAfford | InvalidQuantity | InvalidInput | Silent
  | NoCargo | Sold | CannotSell

fun first_error :: "(error + 'a) list \<Rightarrow> error option" where
  "first_error [] = None"
| "first_error (Inl e # xs) = Some e"
| "first_error (Inr v # xs) = first_error xs"

definition available_goods :: "GameState \<Rightarrow> City \<Rightarrow> (string \<times> int) list" where
  "available_goods st city =
     filter (\<lambda>(gid, s). map_of (goods st) gid \<noteq> None \<and> s > 0) (stock city)"

definition execute_purchase ::
  "GameState \<Rightarrow> City \<Rightarrow> string \<Rightarrow> int \<Rightarrow> SurrealNumber \<Rightarrow> error + GameState" where
  "execute_purchase st city gid quantity total_price =
     (case map_of (stock city) gid of None \<Rightarrow> Inl KeyError
      | Some s \<Rightarrow>
        (let city' = city\<lparr>stock := AList.update gid (s - quantity) (stock city)\<rparr>;
             sts = stats st;
             sts' = sts\<lparr>total_trades := total_trades sts + 1,
                        goods_bought := AList.update gid
                          (dict_get (goods_bought sts) gid 0 + quantity) (goods_bought sts),
                        total_spent := sn_add (total_spent sts) total_price\<rparr>
         in Inr (st\<lparr>money := sn_sub (money st) total_price,
                    cargo := AList.update gid (dict_get (cargo st) gid 0 + quantity) (cargo st),
                    cities := AList.update (current_city st) city' (cities st),
                    stats := sts'\<rparr>)))"

definition buy_goods ::
  "GameState \<Rightarrow> int option \<Rightarrow> int option \<Rightarrow> error + (GameState \<times> outcome)" where
  "buy_goods st choice_in quantity_in =
     (case map_of (cities st) (current_city st) of None \<Rightarrow> Inl KeyError
      | Some city \<Rightarrow>
        (let avail = available_goods st city
         in if avail = [] then Inr (st, NoGoods)
            else
              (case first_error
                      (map (\<lambda>(gid, s). get_price st gid (current_city st) True) avail) of
                 Some e \<Rightarrow> Inl e
               | None \<Rightarrow>
                 (case choice_in of None \<Rightarrow> Inr (st, InvalidInput)
                  | Some n \<Rightarrow>
                    (let choice = n - 1
                     in if 0 \<le> choice \<and> choice < int (length avail) then
                          (let (gid, max_stock) = avail ! nat choice
                           in case quantity_in of None \<Rightarrow> Inr (st, InvalidInput)
                              | Some quantity \<Rightarrow>
                                if 1 \<le> quantity \<and> quantity \<le> max_stock then
                                  (case negotiate_price st gid (current_city st) quantity True of
                                     Inl e \<Rightarrow> Inl e
                                   | Inr None \<Rightarrow> Inr (st, CannotAfford)
                                   | Inr (Some total_price) \<Rightarrow>
                                       if can_afford st total_price then
                                         (case execute_purchase st city gid quantity total_price of
                                            Inl e \<Rightarrow> Inl e
                                          | Inr st' \<Rightarrow> Inr (st', Purchased))
                                       else Inr (st, CannotAfford))
                                else Inr (st, InvalidQuantity))
                        else Inr (st, Silent))))))"

definition execute_sale ::
  "GameState \<Rightarrow> string \<Rightarrow> int \<Rightarrow> SurrealNumber \<Rightarrow> error + GameState" where
  "execute_sale st gid quantity total_price =
     (case map_of (cargo st) gid of None \<Rightarrow> Inl KeyError
      | Some held \<Rightarrow>
        (let cargo1 = AList.update gid (held - quantity) (cargo st);
             cargo2 = (if held - quantity = 0 then AList.delete gid cargo1 else cargo1)
         in case map_of (cities st) (current_city st) of None \<Rightarrow> Inl KeyError
            | Some city \<Rightarrow>
              (let city' = city\<lparr>stock := AList.update gid
                                  (dict_get (stock city) gid 0 + quantity) (stock city)\<rparr>;
                   sts = stats st;
                   sts' = sts\<lparr>total_trades := total_trades sts + 1,
                              goods_sold := AList.update gid
                                (dict_get (goods_sold sts) gid 0 + quantity) (goods_sold sts),
                              total_earned := sn_add (total_earned sts) total_price\<rparr>
               in Inr (st\<lparr>money := sn_add (money st) total_price,
                          cargo := cargo2,
                          cities := AList.update (current_city st) city' (cities st),
                          stats := sts'\<rparr>))))"

definition sell_goods ::
  "GameState \<Rightarrow> int option \<Rightarrow> int option \<Rightarrow> error + (GameState \<times> outcome)" where
  "sell_goods st choice_in quantity_in =
     (if cargo st = [] then Inr (st, NoCargo)
      else
        (case first_error
                (map (\<lambda>(gid, q). get_price st gid (current_city st) False) (cargo st)) of
           Some e \<Rightarrow> Inl e
         | None \<Rightarrow>
           (case choice_in of None \<Rightarrow> Inr (st, InvalidInput)
            | Some n \<Rightarrow>
              (let choice = n - 1
               in if 0 \<le> choice \<and> choice < int (length (cargo st)) then
                    (let (gid, max_quantity) = cargo st ! nat choice
                     in case quantity_in of None \<Rightarrow> Inr (st, InvalidInput)
                        | Some quantity \<Rightarrow>
                          if 1 \<le> quantity \<and> quantity \<le> max_quantity then
                            (case negotiate_price st gid (current_city st) quantity False of
                               Inl e \<Rightarrow> Inl e
                             | Inr None \<Rightarrow> Inr (st, CannotSell)
                             | Inr (Some total_price) \<Rightarrow>
                                 (case execute_sale st gid quantity total_price of
                                    Inl e \<Rightarrow> Inl e
                                  | Inr st' \<Rightarrow> Inr (st', Sold)))
                          else Inr (st, Silent))
                  else Inr (st, Silent)))))"

subsection \<open>Supply refresh\<close>

text \<open>
  \<^verbatim>\<open>random.randint(lo, hi)\<close> is a draw from an outside source: \<open>rnd k lo hi\<close> is what
  the \<open>k\<close>-th draw of a refresh returns when asked for a number between \<open>lo\<close> and
  \<open>hi\<close>. A source is valid when every draw lies in the range it was asked for.
\<close>

type_synonym rng = "nat \<Rightarrow> int \<Rightarrow> int \<Rightarrow> int"

definition valid_rng :: "rng \<Rightarrow> bool" where
  "valid_rng rnd = (\<forall>k lo hi. lo \<le> hi \<longrightarrow> lo \<le> rnd k lo hi \<and> rnd k lo hi \<le> hi)"

text \<open>A refresh message: the city's name, the good's name and the amount shown.\<close>

type_synonym message = "string \<times> string \<times> int"

text \<open>
  The body of the inner loop of \<^verbatim>\<open>refresh_city_supplies\<close>, for one entry of the
  city's base-stock table. It carries the city's stock, the number of draws so far and
  the messages so far. Looking up the good's name for a message raises \<^verbatim>\<open>KeyError\<close>
  when the good is unknown.
\<close>

definition refresh_good ::
  "rng \<Rightarrow> (string \<times> Good) list \<Rightarrow> City \<Rightarrow> string \<Rightarrow> int
   \<Rightarrow> (string \<times> int) list \<times> nat \<times> message list
   \<Rightarrow> error + ((string \<times> int) list \<times> nat \<times> message list)" where
  "refresh_good rnd gs city gid base_amount acc =
     (case acc of (stk, k, msgs) \<Rightarrow>
       (let current_stock = dict_get stk gid 0
        in if is_specialty city gid then
             (let extra_production = rnd k 2 8;
                  new_stock = base_amount + extra_production
              in case map_of gs gid of None \<Rightarrow> Inl KeyError
                 | Some g \<Rightarrow>
                     Inr (AList.update gid (max current_stock new_stock) stk, Suc k,
                          msgs @ [(city_name city, good_name g, new_stock - current_stock)]))
           else
             (let variance = rnd k (- 2) 4;
                  new_stock = max 1 (base_amount + variance)
              in if new_stock > current_stock then
                   (case map_of gs gid of None \<Rightarrow> Inl KeyError
                    | Some g \<Rightarrow>
                        Inr (AList.update gid (max current_stock new_stock) stk, Suc k,
                             msgs @ [(city_name city, good_name g, new_stock - current_stock)]))
                 else Inr (AList.update gid (max current_stock new_stock) stk, Suc k, msgs))))"

fun refresh_goods ::
  "rng \<Rightarrow> (string \<times> Good) list \<Rightarrow> City \<Rightarrow> (string \<times> int) list
   \<Rightarrow> (string \<times> int) list \<times> nat \<times> message list
   \<Rightarrow> error + ((string \<times> int) list \<times> nat \<times> message list)" where
  "refresh_goods rnd gs city [] acc = Inr acc"
| "refresh_goods rnd gs city ((gid, base_amount) # rest) acc =
     (case refresh_good rnd gs city gid base_amount acc of Inl e \<Rightarrow> Inl e
      | Inr acc' \<Rightarrow> refresh_goods rnd gs city rest acc')"

text \<open>
  The outer loop over \<^verbatim>\<open>self.cities.items()\<close>. Each city object is changed in place,
  so the table keeps its keys and their order.
\<close>

fun refresh_cities ::
  "rng \<Rightarrow> (string \<times> Good) list \<Rightarrow> (string \<times> (string \<times> int) list) list
   \<Rightarrow> (string \<times> City) list \<Rightarrow> nat \<Rightarrow> message list
   \<Rightarrow> error + ((string \<times> City) list \<times> nat \<times> message list)" where
  "refresh_cities rnd gs bsl [] k msgs = Inr ([], k, msgs)"
| "refresh_cities rnd gs bsl ((cid, city) # rest) k msgs =
     (case map_of bsl cid of None \<Rightarrow> Inl KeyError
      | Some base_stocks \<Rightarrow>
        (case refresh_goods rnd gs city base_stocks (stock city, k, msgs) of Inl e \<Rightarrow> Inl e
         | Inr (stk', k', msgs') \<Rightarrow>
           (case refresh_cities rnd gs bsl rest k' msgs' of Inl e \<Rightarrow> Inl e
            | Inr (rest', k'', msgs'') \<Rightarrow>
                Inr ((cid, city\<lparr>stock := stk'\<rparr>) # rest', k'', msgs''))))"

definition refresh_city_supplies :: "rng \<Rightarrow> GameState \<Rightarrow> error + (GameState \<times> message list)" where
  "refresh_city_supplies rnd st =
     (case refresh_cities rnd (goods st) (base_stock_levels st) (cities st) 0 [] of
        Inl e \<Rightarrow> Inl e
      | Inr (cs', k, msgs) \<Rightarrow>
          Inr (st\<lparr>cities := cs',
                  stats := (stats st)\<lparr>supply_refreshes := supply_refreshes (stats st) + 1\<rparr>\<rparr>,
               msgs))"

subsection \<open>States and draws used as examples\<close>

text \<open>The player in Gadir with two units of purple dye in the hold.\<close>

definition dye_in_gadir :: GameState where
  "dye_in_gadir = init_state\<lparr>current_city := ''gadir'', cargo := [(''purple_dye'', 2)]\<rparr>"

text \<open>A source of draws that always returns the top of the range.\<close>

definition top_draw :: rng where
  "top_draw k lo hi = hi"

text \<open>
  No lookup of a refresh can fail: every city has a base-stock table, and every good of a
  table is a known good.
\<close>

definition refresh_ready :: "GameState \<Rightarrow> bool" where
  "refresh_ready st =
     list_all (\<lambda>(cid, city).
        case map_of (base_stock_levels st) cid of None \<Rightarrow> False
        | Some bs \<Rightarrow> list_all (\<lambda>(g, b). map_of (goods st) g \<noteq> None) bs) (cities st)"

section \<open>Properties\<close>

subsection \<open>Ordering of prices\<close>

lemma SN_sel [simp]: "sn_a (SN x y z) = x" "sn_b (SN x y z) = y" "sn_c (SN x y z) = z"
  by (simp_all add: SN_def)

text \<open>
  With different omega components, \<^verbatim>\<open><\<close> and \<^verbatim>\<open>>=\<close> follow omega alone, and so does
  \<^verbatim>\<open>>\<close> once the two omegas are at least the tolerance of \<^verbatim>\<open>__eq__\<close> apart.
\<close>

lemma sn_lt_by_omega: "sn_c x < sn_c y \<Longrightarrow> sn_lt x y \<and> \<not> sn_lt y x \<and> sn_ge y x"
  by (simp add: sn_lt_def sn_ge_def)

lemma sn_gt_by_omega: "sn_c x + 1 / 10 ^ 10 \<le> sn_c y \<Longrightarrow> sn_gt y x"
  by (simp add: sn_gt_def sn_le_def sn_lt_def sn_eq_def)

text \<open>
  C9. Of two prices with different omega components, the one with the larger omega should
  compare strictly greater. \<^verbatim>\<open>__gt__\<close> is \<^verbatim>\<open>not (self <= other)\<close>, and \<^verbatim>\<open><=\<close>
  accepts whatever the tolerant \<^verbatim>\<open>__eq__\<close> accepts: at \<open>0\<close> against \<open>5e-11\<close> omega,
  \<^verbatim>\<open><\<close> orders the two as the claim says, and \<^verbatim>\<open>>\<close> does not, although the second
  price is embargoed and the first is legal.
\<close>

theorem gt_fails_within_tolerance:
  "sn_c (SN 0 0 0) < sn_c (SN 0 0 (5 / 10 ^ 11))
   \<and> sn_lt (SN 0 0 0) (SN 0 0 (5 / 10 ^ 11))
   \<and> \<not> sn_gt (SN 0 0 (5 / 10 ^ 11)) (SN 0 0 0)
   \<and> \<not> is_legal (SN 0 0 (5 / 10 ^ 11)) \<and> is_legal (SN 0 0 0)"
  by (simp add: sn_gt_def sn_le_def sn_lt_def sn_eq_def is_legal_def)

subsection \<open>Negotiation\<close>

lemma opening_cut_buying:
  "opening_cut p True = \<lparr>cut_L = [sn_mul p (105 / 100)], cut_R = [sn_mul p (85 / 100)]\<rparr>"
  by (simp add: opening_cut_def add_offer_def empty_cut_def)

lemma opening_cut_selling:
  "opening_cut p False = \<lparr>cut_L = [sn_mul p (115 / 100)], cut_R = [sn_mul p (95 / 100)]\<rparr>"
  by (simp add: opening_cut_def add_offer_def empty_cut_def)


lemma glass_carthage_buying:
  "get_price init_state ''glass'' ''carthage'' True = Inr (SN (47362 / 375) (- (5 / 4)) 0)"
  by (simp add: get_price_def init_state_def create_goods_def create_cities_def carthage_def
      mk_good_def mk_mod_def apply_charters_def dict_get_def is_specialty_def SN_def)



text \<open>
  C2. For a legal base price whose opening offers leave no gap (the maximum of L is
  \<^verbatim>\<open>>=\<close> the minimum of R), the resolver returns the base price times the quantity,
  for every quantity, buying or selling.
\<close>

theorem no_gap_falls_back_to_base_price:
  assumes "is_legal p"
    and "cut_L (opening_cut p is_buying) = l # ls"
    and "cut_R (opening_cut p is_buying) = r # rs"
    and "sn_ge (py_max l ls) (py_min r rs)"
  shows "resolve_price p quantity is_buying = Some (sn_mul p (of_int quantity))
    \<and> (get_price st gid cid is_buying = Inr p \<longrightarrow>
        negotiate_price st gid cid quantity is_buying = Inr (Some (sn_mul p (of_int quantity))))"
  using assms
  by (simp add: resolve_price_def find_simplest_in_gap_def negotiate_price_def)

theorem no_gap_falls_back_to_base_price_witness:
  "is_legal (SN 100 0 0)
   \<and> sn_ge (py_max (sn_mul (SN 100 0 0) (115 / 100)) []) (py_min (sn_mul (SN 100 0 0) (95 / 100)) [])
   \<and> resolve_price (SN 100 0 0) 3 False = Some (SN 300 0 0)"
proof -
  have l: "is_legal (SN 100 0 0)" by (simp add: is_legal_def)
  have cl: "cut_L (opening_cut (SN 100 0 0) False) = sn_mul (SN 100 0 0) (115 / 100) # []"
    by (simp add: opening_cut_selling)
  have cr: "cut_R (opening_cut (SN 100 0 0) False) = sn_mul (SN 100 0 0) (95 / 100) # []"
    by (simp add: opening_cut_selling)
  have g: "sn_ge (py_max (sn_mul (SN 100 0 0) (115 / 100)) [])
                 (py_min (sn_mul (SN 100 0 0) (95 / 100)) [])"
    by (simp add: py_max_def py_min_def sn_ge_def sn_lt_def sn_mul_def)
  from no_gap_falls_back_to_base_price [OF l cl cr g, of 3] l g show ?thesis
    by (simp add: sn_mul_def)
qed

text \<open>
  The hypothesis of C2 is not idle: a legal price with a negative omega leaves a gap, and
  the resolver then returns the midpoint with epsilon 0.
\<close>

lemma gap_with_negative_omega:
  "is_legal (SN 100 7 (- 1)) \<and> resolve_price (SN 100 7 (- 1)) 1 True = Some (SN 95 0 (- (85 / 100)))"
  by (simp add: is_legal_def resolve_price_def opening_cut_buying find_simplest_in_gap_def
      py_max_def py_min_def sn_ge_def sn_lt_def sn_mul_def)

subsection \<open>Quotes\<close>

lemma apply_charters_none:
  "\<forall>ch \<in> set chs. \<not> applies_to ch cid gid \<Longrightarrow> apply_charters chs cid gid p = p"
  unfolding apply_charters_def by (induction chs arbitrary: p) simp_all

lemma apply_charters_zero_stays:
  "sn_c p = 0 \<Longrightarrow> sn_c (apply_charters chs cid gid p) = 0"
  unfolding apply_charters_def by (induction chs arbitrary: p) simp_all

lemma apply_charters_some:
  "\<exists>ch \<in> set chs. applies_to ch cid gid \<Longrightarrow> sn_c (apply_charters chs cid gid p) = 0"
proof (induction chs arbitrary: p)
  case Nil
  then show ?case by simp
next
  case (Cons ch chs)
  show ?case
  proof (cases "applies_to ch cid gid")
    case True
    have "sn_c (apply_charters chs cid gid (p\<lparr>sn_c := 0\<rparr>)) = 0"
      by (rule apply_charters_zero_stays) simp
    with True show ?thesis by (simp add: apply_charters_def)
  next
    case False
    with Cons.prems have "\<exists>ch \<in> set chs. applies_to ch cid gid" by simp
    from Cons.IH[OF this] False show ?thesis by (simp add: apply_charters_def)
  qed
qed

lemma apply_charters_a [simp]: "sn_a (apply_charters chs cid gid p) = sn_a p"
  unfolding apply_charters_def by (induction chs arbitrary: p) simp_all

lemma pressure_nonzero:
  "h \<noteq> - 50 \<Longrightarrow> 1 + real_of_int h * (2 / 100) \<noteq> 0"
  by (simp add: field_simps)

text \<open>
  C3. Glass with base price \<open>(120, 0)\<close>, no monopoly, in a city whose modifier for it is
  \<open>(-8, -1, 0)\<close> and whose stock of it is 18: the modifier's real delta is negative, so
  glass is a specialty of the city and the buying branch multiplies the real part by 1.02
  after the spread. The real part of the buying quote is
  \<open>112 * (1 + 0.15 + (1/1.8 - 1) * 0.1) * 1.02\<close>, whatever the holdings, the reputation
  and the charters are.
\<close>

theorem glass_buying_quote_real:
  assumes "map_of (goods st) gid = Some good" and "base_a good = 120" and "\<not> monopoly good"
    and "map_of (cities st) cid = Some city"
    and "map_of (modifiers city) gid = Some (mk_mod (- 8) (- 1) 0)"
    and "dict_get (stock city) gid 0 = 18"
  shows "\<exists>p. get_price st gid cid True = Inr p
     \<and> sn_a p = 112 * (1 + 15 / 100 + (1 / (18 / 10) - 1) * (1 / 10)) * (102 / 100)"
  using assms
  by (simp add: get_price_def Let_def is_specialty_def mk_mod_def)

lemma init_glass_carthage:
  "map_of (goods init_state) ''glass'' = Some (mk_good ''glass'' ''Glass'' 120 0 False False False)"
  "map_of (cities init_state) ''carthage'' = Some carthage"
  "map_of (modifiers carthage) ''glass'' = Some (mk_mod (- 8) (- 1) 0)"
  "dict_get (stock carthage) ''glass'' 0 = 18"
  "dict_get (cargo init_state) ''glass'' 0 = 0"
  "dict_get (reputation init_state) ''merchant_guild'' 0 = 5"
  by (simp_all add: init_state_def create_goods_def create_cities_def carthage_def dict_get_def)

theorem glass_buying_quote_real_witness:
  "map_of (goods init_state) ''glass'' = Some (mk_good ''glass'' ''Glass'' 120 0 False False False)
   \<and> map_of (cities init_state) ''carthage'' = Some carthage
   \<and> map_of (modifiers carthage) ''glass'' = Some (mk_mod (- 8) (- 1) 0)
   \<and> dict_get (stock carthage) ''glass'' 0 = 18
   \<and> (\<exists>p. get_price init_state ''glass'' ''carthage'' True = Inr p
        \<and> sn_a p = 112 * (1 + 15 / 100 + (1 / (18 / 10) - 1) * (1 / 10)) * (102 / 100))"
proof -
  have b: "base_a (mk_good ''glass'' ''Glass'' 120 0 False False False) = 120"
    and m: "\<not> monopoly (mk_good ''glass'' ''Glass'' 120 0 False False False)"
    by (simp_all add: mk_good_def)
  from glass_buying_quote_real
    [OF init_glass_carthage(1) b m init_glass_carthage(2) init_glass_carthage(3)
        init_glass_carthage(4)]
    init_glass_carthage
  show ?thesis by simp
qed

text \<open>
  The value of the claim as it is written, without the factor 1.02, is not what the code
  returns for these inputs (holdings 0 and reputation 5, as at the start of a game).
\<close>

theorem glass_buying_quote_counterexample:
  "dict_get (cargo init_state) ''glass'' 0 = 0
   \<and> dict_get (reputation init_state) ''merchant_guild'' 0 = 5
   \<and> get_price init_state ''glass'' ''carthage'' True = Inr (SN (47362 / 375) (- (5 / 4)) 0)
   \<and> sn_a (SN (47362 / 375) (- (5 / 4)) 0)
       \<noteq> 112 * (1 + 15 / 100 + (1 / (18 / 10) - 1) * (1 / 10))"
  using glass_carthage_buying init_glass_carthage(5,6) by simp

text \<open>
  C4. When a charter of the player applies to the city and the good, the quote is legal:
  its omega is exactly 0, whatever the monopoly flag, the city's modifier, the direction,
  the holdings and the reputation are. A quote exists whenever the good and the city are
  known; only a sale with holdings of \<open>-50\<close> has none, because the inventory pressure
  it divides by is 0.
\<close>

theorem charter_forces_legal_quote:
  assumes "map_of (goods st) gid = Some good" and "map_of (cities st) cid = Some city"
    and "\<exists>ch \<in> set (charters st). applies_to ch cid gid"
    and "is_buying \<or> dict_get (cargo st) gid 0 \<noteq> - 50"
  shows "\<exists>p. get_price st gid cid is_buying = Inr p \<and> sn_c p = 0 \<and> is_legal p"
proof -
  have z: "\<And>p. sn_c (apply_charters (charters st) cid gid p) = 0"
    using assms(3) by (rule apply_charters_some)
  show ?thesis
  proof (cases is_buying)
    case True
    then show ?thesis using assms(1,2) z
      by (simp add: get_price_def Let_def is_legal_def)
  next
    case False
    with assms(4) have "1 + real_of_int (dict_get (cargo st) gid 0) * (2 / 100) \<noteq> 0"
      by (intro pressure_nonzero) simp
    then show ?thesis using False assms(1,2) z
      by (simp add: get_price_def Let_def is_legal_def)
  qed
qed

lemma init_dye_gadir:
  "map_of (goods init_state) ''purple_dye''
     = Some (mk_good ''purple_dye'' ''Purple Dye'' 220 (- 3) True False False)"
  "map_of (cities init_state) ''gadir'' = Some gadir"
  "map_of (modifiers gadir) ''purple_dye'' = Some (mk_mod 0 0 1)"
  "dict_get (cargo init_state) ''purple_dye'' 0 = 0"
  "charters init_state = []"
  by (simp_all add: init_state_def create_goods_def create_cities_def gadir_def dict_get_def)

theorem charter_forces_legal_quote_witness:
  "(\<exists>ch \<in> set (charters (init_state\<lparr>charters := [gadir_charter]\<rparr>)).
        applies_to ch ''gadir'' ''purple_dye'')
   \<and> (\<exists>p. get_price (init_state\<lparr>charters := [gadir_charter]\<rparr>) ''purple_dye'' ''gadir'' False
            = Inr p \<and> sn_c p = 0 \<and> is_legal p)"
proof -
  let ?st = "init_state\<lparr>charters := [gadir_charter]\<rparr>"
  have g: "map_of (goods ?st) ''purple_dye''
     = Some (mk_good ''purple_dye'' ''Purple Dye'' 220 (- 3) True False False)"
    using init_dye_gadir(1) by simp
  have c: "map_of (cities ?st) ''gadir'' = Some gadir"
    using init_dye_gadir(2) by simp
  have a: "\<exists>ch \<in> set (charters ?st). applies_to ch ''gadir'' ''purple_dye''"
    by (simp add: applies_to_def gadir_charter_def)
  have h: "False \<or> dict_get (cargo ?st) ''purple_dye'' 0 \<noteq> - 50"
    using init_dye_gadir(4) by simp
  from charter_forces_legal_quote [OF g c a h] a show ?thesis by simp
qed

text \<open>
  C5. A monopoly good with no applicable charter, in a city that has no modifier for it or
  a modifier whose omega override is at least 1, gets an illegal quote. At the start of a
  game purple dye in Gadir is quoted illegal, buying and selling, and once a charter that
  covers Gadir and purple dye is added the quote is legal.
\<close>

theorem monopoly_without_charter_illegal:
  "(map_of (goods st) gid = Some good \<and> monopoly good \<and> map_of (cities st) cid = Some city
     \<and> (\<forall>ch \<in> set (charters st). \<not> applies_to ch cid gid)
     \<and> (case map_of (modifiers city) gid of None \<Rightarrow> True | Some m \<Rightarrow> 1 \<le> c_mod m)
     \<and> (is_buying \<or> dict_get (cargo st) gid 0 \<noteq> - 50)
     \<longrightarrow> (\<exists>p. get_price st gid cid is_buying = Inr p \<and> \<not> is_legal p))
   \<and> (\<exists>p. get_price init_state ''purple_dye'' ''gadir'' b = Inr p \<and> \<not> is_legal p)
   \<and> (applies_to ch ''gadir'' ''purple_dye'' \<longrightarrow>
        (\<exists>p. get_price (init_state\<lparr>charters := charters init_state @ [ch]\<rparr>)
                ''purple_dye'' ''gadir'' b = Inr p \<and> is_legal p))"
proof -
  have general: "\<exists>p. get_price s g c d = Inr p \<and> \<not> is_legal p"
    if h: "map_of (goods s) g = Some gd" "monopoly gd" "map_of (cities s) c = Some ct"
      "\<forall>ch \<in> set (charters s). \<not> applies_to ch c g"
      "case map_of (modifiers ct) g of None \<Rightarrow> True | Some m \<Rightarrow> 1 \<le> c_mod m"
      "d \<or> dict_get (cargo s) g 0 \<noteq> - 50"
    for s g c d gd ct
  proof -
    have n: "\<And>p. apply_charters (charters s) c g p = p"
      using h(4) by (rule apply_charters_none)
    show ?thesis
    proof (cases d)
      case True
      then show ?thesis using h(1,2,3,5) n
        by (simp add: get_price_def Let_def is_legal_def split: option.splits)
    next
      case False
      with h(6) have "1 + real_of_int (dict_get (cargo s) g 0) * (2 / 100) \<noteq> 0"
        by (intro pressure_nonzero) simp
      then show ?thesis using False h(1,2,3,5) n
        by (simp add: get_price_def Let_def is_legal_def split: option.splits)
    qed
  qed
  have dye: "\<exists>p. get_price init_state ''purple_dye'' ''gadir'' b = Inr p \<and> \<not> is_legal p"
  proof (rule general [OF init_dye_gadir(1) _ init_dye_gadir(2)])
    show "monopoly (mk_good ''purple_dye'' ''Purple Dye'' 220 (- 3) True False False)"
      by (simp add: mk_good_def)
    show "\<forall>ch \<in> set (charters init_state). \<not> applies_to ch ''gadir'' ''purple_dye''"
      by (simp add: init_dye_gadir(5))
    show "case map_of (modifiers gadir) ''purple_dye'' of None \<Rightarrow> True | Some m \<Rightarrow> 1 \<le> c_mod m"
      by (simp add: init_dye_gadir(3) mk_mod_def)
    show "b \<or> dict_get (cargo init_state) ''purple_dye'' 0 \<noteq> - 50"
      by (simp add: init_dye_gadir(4))
  qed
  have chartered: "\<exists>p. get_price (init_state\<lparr>charters := charters init_state @ [ch]\<rparr>)
                ''purple_dye'' ''gadir'' b = Inr p \<and> is_legal p"
    if a: "applies_to ch ''gadir'' ''purple_dye''"
  proof -
    let ?st = "init_state\<lparr>charters := charters init_state @ [ch]\<rparr>"
    have g: "map_of (goods ?st) ''purple_dye''
       = Some (mk_good ''purple_dye'' ''Purple Dye'' 220 (- 3) True False False)"
      using init_dye_gadir(1) by simp
    have c: "map_of (cities ?st) ''gadir'' = Some gadir"
      using init_dye_gadir(2) by simp
    have e: "\<exists>x \<in> set (charters ?st). applies_to x ''gadir'' ''purple_dye''"
      using a by simp
    have z: "\<And>p. sn_c (apply_charters (charters ?st) ''gadir'' ''purple_dye'' p) = 0"
      using e by (rule apply_charters_some)
    have p0: "1 + real_of_int (dict_get (cargo ?st) ''purple_dye'' 0) * (2 / 100) \<noteq> 0"
      using init_dye_gadir(4) by simp
    show ?thesis using g c z p0
      by (cases b) (simp_all add: get_price_def Let_def is_legal_def)
  qed
  from general dye chartered show ?thesis by blast
qed

theorem monopoly_without_charter_illegal_witness:
  "map_of (goods init_state) ''purple_dye''
      = Some (mk_good ''purple_dye'' ''Purple Dye'' 220 (- 3) True False False)
   \<and> monopoly (mk_good ''purple_dye'' ''Purple Dye'' 220 (- 3) True False False)
   \<and> map_of (cities init_state) ''gadir'' = Some gadir
   \<and> charters init_state = []
   \<and> map_of (modifiers gadir) ''purple_dye'' = Some (mk_mod 0 0 1)
   \<and> (\<exists>p. get_price init_state ''purple_dye'' ''gadir'' True = Inr p \<and> \<not> is_legal p)
   \<and> applies_to gadir_charter ''gadir'' ''purple_dye''
   \<and> (\<exists>p. get_price (init_state\<lparr>charters := charters init_state @ [gadir_charter]\<rparr>)
                ''purple_dye'' ''gadir'' True = Inr p \<and> is_legal p)"
proof -
  have m: "monopoly (mk_good ''purple_dye'' ''Purple Dye'' 220 (- 3) True False False)"
    by (simp add: mk_good_def)
  have n: "\<forall>ch \<in> set (charters init_state). \<not> applies_to ch ''gadir'' ''purple_dye''"
    by (simp add: init_dye_gadir(5))
  have o: "case map_of (modifiers gadir) ''purple_dye'' of None \<Rightarrow> True | Some m \<Rightarrow> 1 \<le> c_mod m"
    by (simp add: init_dye_gadir(3) mk_mod_def)
  have a: "applies_to gadir_charter ''gadir'' ''purple_dye''"
    by (simp add: applies_to_def gadir_charter_def)
  from monopoly_without_charter_illegal
    [of init_state "''purple_dye''"
        "mk_good ''purple_dye'' ''Purple Dye'' 220 (- 3) True False False"
        "''gadir''" gadir True True gadir_charter]
    init_dye_gadir(1,2,3,5) m n o a
  show ?thesis by simp
qed

subsection \<open>Trading\<close>

lemma negotiate_price_Some_legal:
  "negotiate_price st gid cid q b = Inr (Some t) \<Longrightarrow>
   \<exists>p. get_price st gid cid b = Inr p \<and> is_legal p"
  by (auto simp: negotiate_price_def resolve_price_def split: sum.splits if_splits)

lemma negotiate_price_illegal:
  "get_price st gid cid b = Inr p \<Longrightarrow> \<not> is_legal p \<Longrightarrow> negotiate_price st gid cid q b = Inr None"
  by (simp add: negotiate_price_def resolve_price_def)

lemma buy_not_purchased:
  "buy_goods st ci qi = Inr (st', out) \<Longrightarrow> out \<noteq> Purchased \<Longrightarrow> st' = st"
  by (auto simp: buy_goods_def Let_def split: option.splits sum.splits if_splits prod.splits)

lemma sell_not_sold:
  "sell_goods st ci qi = Inr (st', out) \<Longrightarrow> out \<noteq> Sold \<Longrightarrow> st' = st"
  by (auto simp: sell_goods_def Let_def split: option.splits sum.splits if_splits prod.splits)

lemma buy_purchased:
  "buy_goods st ci qi = Inr (st', Purchased) \<Longrightarrow>
   \<exists>city n q gid max_stock t. map_of (cities st) (current_city st) = Some city
     \<and> ci = Some n \<and> qi = Some q \<and> 1 \<le> n \<and> n \<le> int (length (available_goods st city))
     \<and> available_goods st city ! nat (n - 1) = (gid, max_stock)
     \<and> 1 \<le> q \<and> q \<le> max_stock
     \<and> negotiate_price st gid (current_city st) q True = Inr (Some t)
     \<and> can_afford st t
     \<and> execute_purchase st city gid q t = Inr st'"
  by (auto simp: buy_goods_def Let_def split: option.splits sum.splits if_splits prod.splits)

lemma sell_sold:
  "sell_goods st ci qi = Inr (st', Sold) \<Longrightarrow>
   \<exists>n q gid max_quantity t. 
     ci = Some n \<and> qi = Some q \<and> 1 \<le> n \<and> n \<le> int (length (cargo st))
     \<and> cargo st ! nat (n - 1) = (gid, max_quantity)
     \<and> 1 \<le> q \<and> q \<le> max_quantity
     \<and> negotiate_price st gid (current_city st) q False = Inr (Some t)
     \<and> execute_sale st gid q t = Inr st'"
  by (auto simp: sell_goods_def Let_def split: option.splits sum.splits if_splits prod.splits)


text \<open>
  C6. A buy or a sell that is not carried out leaves the whole state as it was: money,
  cargo, the cities with their stock, and the statistics. And a buy is carried out only
  when the quantity is between 1 and the stock offered, the quote is legal, the negotiated
  total is not \<open>None\<close> and the player can afford it; a sale only when the quantity is
  between 1 and the holdings and the quote is legal. So a rejection for an illegal price,
  for a total above the cash, or for a quantity out of range changes nothing.
\<close>

theorem rejected_transaction_changes_nothing:
  "(buy_goods st ci qi = Inr (st', out) \<longrightarrow>
      (out \<noteq> Purchased \<longrightarrow> st' = st)
      \<and> (out = Purchased \<longrightarrow>
           (\<exists>city n q gid max_stock p t.
              map_of (cities st) (current_city st) = Some city
              \<and> ci = Some n \<and> qi = Some q
              \<and> 1 \<le> n \<and> n \<le> int (length (available_goods st city))
              \<and> available_goods st city ! nat (n - 1) = (gid, max_stock)
              \<and> 1 \<le> q \<and> q \<le> max_stock
              \<and> get_price st gid (current_city st) True = Inr p \<and> is_legal p
              \<and> negotiate_price st gid (current_city st) q True = Inr (Some t)
              \<and> can_afford st t
              \<and> execute_purchase st city gid q t = Inr st')))
   \<and> (sell_goods st ci qi = Inr (st'', out') \<longrightarrow>
      (out' \<noteq> Sold \<longrightarrow> st'' = st)
      \<and> (out' = Sold \<longrightarrow>
           (\<exists>n q gid max_quantity p t.
              ci = Some n \<and> qi = Some q
              \<and> 1 \<le> n \<and> n \<le> int (length (cargo st))
              \<and> cargo st ! nat (n - 1) = (gid, max_quantity)
              \<and> 1 \<le> q \<and> q \<le> max_quantity
              \<and> get_price st gid (current_city st) False = Inr p \<and> is_legal p
              \<and> negotiate_price st gid (current_city st) q False = Inr (Some t)
              \<and> execute_sale st gid q t = Inr st'')))"
proof (intro conjI impI)
  assume "buy_goods st ci qi = Inr (st', out)" and "out \<noteq> Purchased"
  then show "st' = st" by (rule buy_not_purchased)
next
  assume b: "buy_goods st ci qi = Inr (st', out)" and "out = Purchased"
  then have "buy_goods st ci qi = Inr (st', Purchased)" by simp
  from buy_purchased [OF this] obtain city n q gid max_stock t where
    h: "map_of (cities st) (current_city st) = Some city" "ci = Some n" "qi = Some q"
       "1 \<le> n" "n \<le> int (length (available_goods st city))"
       "available_goods st city ! nat (n - 1) = (gid, max_stock)" "1 \<le> q" "q \<le> max_stock"
       "negotiate_price st gid (current_city st) q True = Inr (Some t)" "can_afford st t"
       "execute_purchase st city gid q t = Inr st'"
    by blast
  from negotiate_price_Some_legal [OF h(9)] obtain p where
    "get_price st gid (current_city st) True = Inr p" "is_legal p" by blast
  with h show "\<exists>city n q gid max_stock p t.
              map_of (cities st) (current_city st) = Some city
              \<and> ci = Some n \<and> qi = Some q
              \<and> 1 \<le> n \<and> n \<le> int (length (available_goods st city))
              \<and> available_goods st city ! nat (n - 1) = (gid, max_stock)
              \<and> 1 \<le> q \<and> q \<le> max_stock
              \<and> get_price st gid (current_city st) True = Inr p \<and> is_legal p
              \<and> negotiate_price st gid (current_city st) q True = Inr (Some t)
              \<and> can_afford st t
              \<and> execute_purchase st city gid q t = Inr st'"
    by blast
next
  assume "sell_goods st ci qi = Inr (st'', out')" and "out' \<noteq> Sold"
  then show "st'' = st" by (rule sell_not_sold)
next
  assume "sell_goods st ci qi = Inr (st'', out')" and "out' = Sold"
  then have "sell_goods st ci qi = Inr (st'', Sold)" by simp
  from sell_sold [OF this] obtain n q gid max_quantity t where
    h: "ci = Some n" "qi = Some q" "1 \<le> n" "n \<le> int (length (cargo st))"
       "cargo st ! nat (n - 1) = (gid, max_quantity)" "1 \<le> q" "q \<le> max_quantity"
       "negotiate_price st gid (current_city st) q False = Inr (Some t)"
       "execute_sale st gid q t = Inr st''"
    by blast
  from negotiate_price_Some_legal [OF h(8)] obtain p where
    "get_price st gid (current_city st) False = Inr p" "is_legal p" by blast
  with h show "\<exists>n q gid max_quantity p t.
              ci = Some n \<and> qi = Some q
              \<and> 1 \<le> n \<and> n \<le> int (length (cargo st))
              \<and> cargo st ! nat (n - 1) = (gid, max_quantity)
              \<and> 1 \<le> q \<and> q \<le> max_quantity
              \<and> get_price st gid (current_city st) False = Inr p \<and> is_legal p
              \<and> negotiate_price st gid (current_city st) q False = Inr (Some t)
              \<and> execute_sale st gid q t = Inr st''"
    by blast
qed


lemma buy_too_dear: "buy_goods init_state (Some 1) (Some 18) = Inr (init_state, CannotAfford)"
  by (simp add: buy_goods_def available_goods_def negotiate_price_def glass_carthage_buying
      resolve_price_def is_legal_def can_afford_def opening_cut_buying find_simplest_in_gap_def
      py_max_def py_min_def sn_ge_def sn_lt_def sn_mul_def Let_def
      init_state_def create_goods_def create_cities_def carthage_def
      mk_good_def mk_mod_def apply_charters_def dict_get_def is_specialty_def get_price_def)

lemma sell_embargoed: "sell_goods dye_in_gadir (Some 1) (Some 1) = Inr (dye_in_gadir, CannotSell)"
  by (simp add: sell_goods_def dye_in_gadir_def negotiate_price_def
      resolve_price_def is_legal_def Let_def
      init_state_def create_goods_def create_cities_def gadir_def
      mk_good_def mk_mod_def apply_charters_def dict_get_def is_specialty_def get_price_def)


theorem rejected_transaction_changes_nothing_witness:
  "(\<exists>s out. buy_goods init_state (Some 1) (Some 18) = Inr (s, out)
        \<and> out \<noteq> Purchased \<and> s = init_state)
   \<and> (\<exists>s out. sell_goods dye_in_gadir (Some 1) (Some 1) = Inr (s, out)
        \<and> out \<noteq> Sold \<and> s = dye_in_gadir)"
proof -
  from rejected_transaction_changes_nothing
    [of init_state "Some 1" "Some 18" init_state CannotAfford init_state NoCargo]
    buy_too_dear
  have b: "\<exists>s out. buy_goods init_state (Some 1) (Some 18) = Inr (s, out)
        \<and> out \<noteq> Purchased \<and> s = init_state"
    by simp
  from rejected_transaction_changes_nothing
    [of dye_in_gadir "Some 1" "Some 1" dye_in_gadir NoGoods dye_in_gadir CannotSell]
    sell_embargoed
  have s: "\<exists>s out. sell_goods dye_in_gadir (Some 1) (Some 1) = Inr (s, out)
        \<and> out \<noteq> Sold \<and> s = dye_in_gadir"
    by simp
  from b s show ?thesis by simp
qed

subsection \<open>Supply refresh\<close>

lemma refresh_good_result:
  assumes "refresh_good rnd gs city gid base (stk, k, msgs) = Inr (stk', k', msgs')"
  shows "stk' = AList.update gid
            (max (dict_get stk gid 0)
               (if is_specialty city gid then base + rnd k 2 8
                else max 1 (base + rnd k (- 2) 4))) stk
         \<and> k' = Suc k"
  using assms
  by (auto simp: refresh_good_def Let_def split: if_splits option.splits)

lemma refresh_good_returns:
  assumes "map_of gs gid \<noteq> None"
  shows "\<exists>r. refresh_good rnd gs city gid base acc = Inr r"
  using assms
  by (cases acc) (auto simp: refresh_good_def Let_def split: if_splits option.splits)

lemma dict_get_update:
  "dict_get (AList.update k v al) g d = (if g = k then v else dict_get al g d)"
  by (simp add: dict_get_def update_conv')

lemma refresh_good_mono:
  assumes "refresh_good rnd gs city gid base (stk, k, msgs) = Inr (stk', k', msgs')"
  shows "dict_get stk g 0 \<le> dict_get stk' g 0"
  using refresh_good_result [OF assms] by (simp add: dict_get_update)

lemma refresh_good_other:
  assumes "refresh_good rnd gs city gid base (stk, k, msgs) = Inr (stk', k', msgs')"
    and "g \<noteq> gid"
  shows "map_of stk' g = map_of stk g"
  using refresh_good_result [OF assms(1)] assms(2) by (simp add: update_conv')

lemma refresh_goods_mono:
  "refresh_goods rnd gs city bs (stk, k, msgs) = Inr (stk', k', msgs') \<Longrightarrow>
   dict_get stk g 0 \<le> dict_get stk' g 0"
proof (induction bs arbitrary: stk k msgs)
  case Nil
  then show ?case by simp
next
  case (Cons e bs)
  obtain gid base where e: "e = (gid, base)" by (cases e)
  from Cons.prems e obtain s1 k1 m1 where
    step: "refresh_good rnd gs city gid base (stk, k, msgs) = Inr (s1, k1, m1)"
    and rest: "refresh_goods rnd gs city bs (s1, k1, m1) = Inr (stk', k', msgs')"
    by (auto split: sum.splits)
  from refresh_good_mono [OF step] Cons.IH [OF rest] show ?case by (rule order_trans)
qed

lemma refresh_goods_other:
  "refresh_goods rnd gs city bs (stk, k, msgs) = Inr (stk', k', msgs') \<Longrightarrow>
   g \<notin> fst ` set bs \<Longrightarrow> map_of stk' g = map_of stk g"
proof (induction bs arbitrary: stk k msgs)
  case Nil
  then show ?case by simp
next
  case (Cons e bs)
  obtain gid base where e: "e = (gid, base)" by (cases e)
  from Cons.prems(1) e obtain s1 k1 m1 where
    step: "refresh_good rnd gs city gid base (stk, k, msgs) = Inr (s1, k1, m1)"
    and rest: "refresh_goods rnd gs city bs (s1, k1, m1) = Inr (stk', k', msgs')"
    by (auto split: sum.splits)
  from Cons.prems(2) e have ne: "g \<noteq> gid" and ni: "g \<notin> fst ` set bs" by auto
  from Cons.IH [OF rest ni] refresh_good_other [OF step ne] show ?case by simp
qed

lemma refresh_goods_entry:
  "refresh_goods rnd gs city bs (stk, k, msgs) = Inr (stk', k', msgs') \<Longrightarrow>
   distinct (map fst bs) \<Longrightarrow> map_of bs g = Some base \<Longrightarrow>
   \<exists>j. map_of stk' g = Some (max (dict_get stk g 0)
               (if is_specialty city g then base + rnd j 2 8
                else max 1 (base + rnd j (- 2) 4)))"
proof (induction bs arbitrary: stk k msgs)
  case Nil
  then show ?case by simp
next
  case (Cons e bs)
  obtain gid b where e: "e = (gid, b)" by (cases e)
  from Cons.prems(1) e obtain s1 k1 m1 where
    step: "refresh_good rnd gs city gid b (stk, k, msgs) = Inr (s1, k1, m1)"
    and rest: "refresh_goods rnd gs city bs (s1, k1, m1) = Inr (stk', k', msgs')"
    by (auto split: sum.splits)
  show ?case
  proof (cases "g = gid")
    case True
    with Cons.prems(3) e have b: "b = base" by simp
    from Cons.prems(2) e True have "g \<notin> fst ` set bs" by auto
    from refresh_goods_other [OF rest this] have "map_of stk' g = map_of s1 g" .
    with refresh_good_result [OF step] True b show ?thesis
      by (auto simp: update_conv')
  next
    case False
    with Cons.prems(3) e have m: "map_of bs g = Some base" by simp
    from Cons.prems(2) have d: "distinct (map fst bs)" by simp
    from refresh_good_other [OF step False] have "dict_get s1 g 0 = dict_get stk g 0"
      by (simp add: dict_get_def)
    with Cons.IH [OF rest d m] show ?thesis by simp
  qed
qed

lemma refresh_goods_returns:
  "list_all (\<lambda>(g, b). map_of gs g \<noteq> None) bs \<Longrightarrow>
   \<exists>r. refresh_goods rnd gs city bs acc = Inr r"
proof (induction bs arbitrary: acc)
  case Nil
  show ?case by (intro exI [of _ acc]) simp
next
  case (Cons e bs)
  obtain gid b where e: "e = (gid, b)" by (cases e)
  from Cons.prems e have "map_of gs gid \<noteq> None" by simp
  from refresh_good_returns [OF this] obtain r where
    "refresh_good rnd gs city gid b acc = Inr r" by blast
  moreover from Cons.prems have "list_all (\<lambda>(g, b). map_of gs g \<noteq> None) bs" by simp
  from Cons.IH [OF this] obtain r' where "refresh_goods rnd gs city bs r = Inr r'" by blast
  ultimately show ?case using e by (intro exI [of _ r']) simp
qed

lemma refresh_cities_lookup:
  "refresh_cities rnd gs bsl cs k msgs = Inr (cs', k', msgs') \<Longrightarrow>
   map_of cs cid = Some city \<Longrightarrow>
   \<exists>bs ki mi stk' kj mj. map_of bsl cid = Some bs
      \<and> refresh_goods rnd gs city bs (stock city, ki, mi) = Inr (stk', kj, mj)
      \<and> map_of cs' cid = Some (city\<lparr>stock := stk'\<rparr>)"
proof (induction cs arbitrary: k msgs cs' k' msgs')
  case Nil
  then show ?case by simp
next
  case (Cons e cs)
  obtain c0 city0 where e: "e = (c0, city0)" by (cases e)
  from Cons.prems(1) e obtain bs s1 k1 m1 rest' where
    t: "map_of bsl c0 = Some bs"
    and g: "refresh_goods rnd gs city0 bs (stock city0, k, msgs) = Inr (s1, k1, m1)"
    and r: "refresh_cities rnd gs bsl cs k1 m1 = Inr (rest', k', msgs')"
    and c: "cs' = (c0, city0\<lparr>stock := s1\<rparr>) # rest'"
    by (auto split: option.splits sum.splits)
  show ?case
  proof (cases "cid = c0")
    case True
    with Cons.prems(2) e have "city = city0" by simp
    with True t g c show ?thesis
      by (intro exI [of _ bs] exI [of _ k] exI [of _ msgs] exI [of _ s1] exI [of _ k1]
          exI [of _ m1]) simp
  next
    case False
    with Cons.prems(2) e have "map_of cs cid = Some city" by simp
    from Cons.IH [OF r this] False c show ?thesis by auto
  qed
qed

lemma refresh_cities_returns:
  "list_all (\<lambda>(cid, city). case map_of bsl cid of None \<Rightarrow> False
        | Some bs \<Rightarrow> list_all (\<lambda>(g, b). map_of gs g \<noteq> None) bs) cs \<Longrightarrow>
   \<exists>r. refresh_cities rnd gs bsl cs k msgs = Inr r"
proof (induction cs arbitrary: k msgs)
  case Nil
  then show ?case by simp
next
  case (Cons e cs)
  obtain c0 city0 where e: "e = (c0, city0)" by (cases e)
  from Cons.prems e obtain bs where t: "map_of bsl c0 = Some bs"
    and a: "list_all (\<lambda>(g, b). map_of gs g \<noteq> None) bs"
    by (auto split: option.splits)
  from refresh_goods_returns [OF a] obtain s1 k1 m1 where
    g: "refresh_goods rnd gs city0 bs (stock city0, k, msgs) = Inr (s1, k1, m1)"
    by (metis prod_cases3)
  from Cons.prems have "list_all (\<lambda>(cid, city). case map_of bsl cid of None \<Rightarrow> False
        | Some bs \<Rightarrow> list_all (\<lambda>(g, b). map_of gs g \<noteq> None) bs) cs" by simp
  from Cons.IH [OF this] obtain r where "refresh_cities rnd gs bsl cs k1 m1 = Inr r" by blast
  with t g e show ?case by (cases r) simp
qed

lemma refresh_returns:
  assumes "refresh_ready st"
  shows "\<exists>s m. refresh_city_supplies rnd st = Inr (s, m)"
proof -
  from assms
  have "\<exists>r. refresh_cities rnd (goods st) (base_stock_levels st) (cities st) 0 [] = Inr r"
    unfolding refresh_ready_def by (rule refresh_cities_returns)
  then show ?thesis
    by (auto simp: refresh_city_supplies_def split: sum.splits)
qed

lemma init_refresh_ready: "refresh_ready init_state"
  by (simp add: refresh_ready_def init_state_def create_cities_def create_goods_def
      create_base_stock_levels_def)

lemma init_tyre:
  "map_of (cities init_state) ''tyre'' = Some tyre"
  "map_of (base_stock_levels init_state) ''tyre''
     = Some [(''purple_dye'', 5), (''glass'', 15), (''cedar'', 8)]"
  "is_specialty tyre ''purple_dye''"
  "dict_get (stock tyre) ''purple_dye'' 0 = 5"
  by (simp_all add: init_state_def create_cities_def create_base_stock_levels_def tyre_def
      is_specialty_def mk_mod_def dict_get_def)

text \<open>
  C7. A refresh never lowers a stock: for every city and every good, the stock after the
  refresh (0 when the city has no entry for the good) is at least the stock before,
  whatever the draws are. The refresh returns whenever none of its lookups fails.
\<close>

theorem refresh_never_reduces_stock:
  "(refresh_city_supplies rnd st = Inr (st', msgs) \<and> map_of (cities st) cid = Some city
      \<longrightarrow> (\<exists>city'. map_of (cities st') cid = Some city'
             \<and> dict_get (stock city) g 0 \<le> dict_get (stock city') g 0))
   \<and> (refresh_ready st \<longrightarrow> (\<exists>s m. refresh_city_supplies rnd st = Inr (s, m)))"
proof (intro conjI impI)
  assume a: "refresh_city_supplies rnd st = Inr (st', msgs) \<and> map_of (cities st) cid = Some city"
  then obtain cs' k' where
    r: "refresh_cities rnd (goods st) (base_stock_levels st) (cities st) 0 [] = Inr (cs', k', msgs)"
    and s: "cities st' = cs'"
    by (auto simp: refresh_city_supplies_def split: sum.splits)
  from a have "map_of (cities st) cid = Some city" by simp
  from refresh_cities_lookup [OF r this] obtain bs ki mi stk' kj mj where
    g: "refresh_goods rnd (goods st) city bs (stock city, ki, mi) = Inr (stk', kj, mj)"
    and c: "map_of cs' cid = Some (city\<lparr>stock := stk'\<rparr>)"
    by blast
  from refresh_goods_mono [OF g] c s
  show "\<exists>city'. map_of (cities st') cid = Some city'
             \<and> dict_get (stock city) g 0 \<le> dict_get (stock city') g 0"
    by simp
next
  assume "refresh_ready st"
  then show "\<exists>s m. refresh_city_supplies rnd st = Inr (s, m)"
    by (rule refresh_returns)
qed

theorem refresh_never_reduces_stock_witness:
  "refresh_ready init_state \<and> map_of (cities init_state) ''tyre'' = Some tyre
   \<and> (\<exists>s m city'. refresh_city_supplies top_draw init_state = Inr (s, m)
         \<and> map_of (cities s) ''tyre'' = Some city'
         \<and> dict_get (stock tyre) ''purple_dye'' 0 \<le> dict_get (stock city') ''purple_dye'' 0)"
proof -
  from refresh_never_reduces_stock [of top_draw init_state] init_refresh_ready
  obtain s m where r: "refresh_city_supplies top_draw init_state = Inr (s, m)"
    by blast
  from refresh_never_reduces_stock
    [of top_draw init_state s m "''tyre''" tyre "''purple_dye''"] r init_tyre(1)
  have "\<exists>city'. map_of (cities s) ''tyre'' = Some city'
         \<and> dict_get (stock tyre) ''purple_dye'' 0 \<le> dict_get (stock city') ''purple_dye'' 0"
    by simp
  with r init_refresh_ready init_tyre(1) show ?thesis by blast
qed

text \<open>
  C8. For a good of a city's base-stock table, with a valid source of draws, the stock
  after a refresh is \<open>max current (base + d)\<close> with a draw \<open>d\<close> between 2 and 8 when
  the good is a specialty of the city, and \<open>max current (max 1 (base + d))\<close> with a
  draw between \<open>-2\<close> and 4 otherwise. With stock 5, base stock 5, a specialty and a
  draw of 8, the stock becomes 13.
\<close>

theorem refresh_sets_stock:
  assumes "valid_rng rnd"
    and "refresh_city_supplies rnd st = Inr (st', msgs)"
    and "map_of (cities st) cid = Some city"
    and "map_of (base_stock_levels st) cid = Some bs"
    and "distinct (map fst bs)"
    and "map_of bs g = Some base"
  shows "\<exists>city' j d. map_of (cities st') cid = Some city'
     \<and> (if is_specialty city g
         then d = rnd j 2 8 \<and> 2 \<le> d \<and> d \<le> 8
              \<and> map_of (stock city') g = Some (max (dict_get (stock city) g 0) (base + d))
         else d = rnd j (- 2) 4 \<and> - 2 \<le> d \<and> d \<le> 4
              \<and> map_of (stock city') g
                  = Some (max (dict_get (stock city) g 0) (max 1 (base + d))))"
proof -
  from assms(2) obtain cs' k' where
    r: "refresh_cities rnd (goods st) (base_stock_levels st) (cities st) 0 [] = Inr (cs', k', msgs)"
    and s: "cities st' = cs'"
    by (auto simp: refresh_city_supplies_def split: sum.splits)
  from refresh_cities_lookup [OF r assms(3)] assms(4) obtain ki mi stk' kj mj where
    g: "refresh_goods rnd (goods st) city bs (stock city, ki, mi) = Inr (stk', kj, mj)"
    and c: "map_of cs' cid = Some (city\<lparr>stock := stk'\<rparr>)"
    by auto
  from refresh_goods_entry [OF g assms(5,6)] obtain j where
    j: "map_of stk' g = Some (max (dict_get (stock city) g 0)
               (if is_specialty city g then base + rnd j 2 8
                else max 1 (base + rnd j (- 2) 4)))"
    by blast
  from assms(1) have v1: "2 \<le> rnd j 2 8 \<and> rnd j 2 8 \<le> 8"
    and v2: "- 2 \<le> rnd j (- 2) 4 \<and> rnd j (- 2) 4 \<le> 4"
    by (simp_all add: valid_rng_def)
  show ?thesis
  proof (cases "is_specialty city g")
    case True
    with j v1 c s show ?thesis
      by (intro exI [of _ "city\<lparr>stock := stk'\<rparr>"] exI [of _ j] exI [of _ "rnd j 2 8"]) simp
  next
    case False
    with j v2 c s show ?thesis
      by (intro exI [of _ "city\<lparr>stock := stk'\<rparr>"] exI [of _ j] exI [of _ "rnd j (- 2) 4"]) simp
  qed
qed

theorem refresh_sets_stock_witness:
  "is_specialty tyre ''purple_dye''
   \<and> dict_get (stock tyre) ''purple_dye'' 0 = 5
   \<and> (\<exists>s m city'. refresh_city_supplies top_draw init_state = Inr (s, m)
         \<and> map_of (cities s) ''tyre'' = Some city'
         \<and> map_of (stock city') ''purple_dye'' = Some 13)"
proof -
  have v: "valid_rng top_draw" by (simp add: valid_rng_def top_draw_def)
  from refresh_returns [OF init_refresh_ready, of top_draw]
  obtain s m where r: "refresh_city_supplies top_draw init_state = Inr (s, m)"
    by blast
  have d: "distinct (map fst [(''purple_dye'', 5::int), (''glass'', 15), (''cedar'', 8)])"
    by simp
  have b: "map_of [(''purple_dye'', 5::int), (''glass'', 15), (''cedar'', 8)] ''purple_dye'' = Some 5"
    by simp
  from refresh_sets_stock [OF v r init_tyre(1) init_tyre(2) d b] init_tyre(3,4)
  have "\<exists>city'. map_of (cities s) ''tyre'' = Some city'
         \<and> map_of (stock city') ''purple_dye'' = Some 13"
    by (auto simp: top_draw_def)
  with r init_tyre(3,4) show ?thesis by blast
qed

end
